theory Spec2Isabelle
  imports Complex_Main
begin

section \<open>Python values, exceptions and effects\<close>

text \<open>
  The two scripts of \<^verbatim>\<open>office-server\<close> (\<^verbatim>\<open>test_all_features.py\<close> and \<^verbatim>\<open>build.py\<close>)
  are embedded as functions over an explicit trace of effects. What the scripts cannot
  decide themselves (the reply of the HTTP server, the outcome of a subprocess, the file
  system) is a parameter of the model.
\<close>

subsection \<open>Decoded JSON\<close>

text \<open>
  The values \<^verbatim>\<open>response.json()\<close> can return. A finite float is kept as the rational it
  denotes; Python's decoder also accepts \<^verbatim>\<open>NaN\<close> and the infinities. A dict is an
  association list read with \<^const>\<open>map_of\<close>.
\<close>

datatype pyfloat = Finite rat | PosInf | NegInf | NaN

datatype json =
    JNull
  | JBool bool
  | JInt int
  | JFloat pyfloat
  | JStr string
  | JList "json list"
  | JDict "(string \<times> json) list"

text \<open>
  Exceptions: \<open>Exc cls msg\<close> is an instance of a subclass \<open>cls\<close> of \<^verbatim>\<open>Exception\<close> with
  \<^verbatim>\<open>str(e) = msg\<close>; \<^verbatim>\<open>KeyboardInterrupt\<close> and \<^verbatim>\<open>SystemExit\<close> derive from
  \<^verbatim>\<open>BaseException\<close> only, so \<^verbatim>\<open>except Exception\<close> does not catch them.
\<close>

datatype exn = Exc string string | KeyboardInterrupt | SystemExit int

fun is_Exception :: "exn \<Rightarrow> bool" where
  "is_Exception (Exc cls msg) = True"
| "is_Exception KeyboardInterrupt = False"
| "is_Exception (SystemExit n) = False"

fun type_name :: "json \<Rightarrow> string" where
  "type_name JNull = ''NoneType''"
| "type_name (JBool b) = ''bool''"
| "type_name (JInt i) = ''int''"
| "type_name (JFloat f) = ''float''"
| "type_name (JStr s) = ''str''"
| "type_name (JList xs) = ''list''"
| "type_name (JDict kvs) = ''dict''"

text \<open>A name between single quotes, as Python's messages print it.\<close>

definition quoted :: "string \<Rightarrow> string" where
  "quoted s = [CHR 0x27] @ s @ [CHR 0x27]"

text \<open>Python's truth value of a decoded value (\<^verbatim>\<open>not v\<close>, \<^verbatim>\<open>v and w\<close>).\<close>

fun truthy :: "json \<Rightarrow> bool" where
  "truthy JNull = False"
| "truthy (JBool b) = b"
| "truthy (JInt i) = (i \<noteq> 0)"
| "truthy (JFloat f) = (f \<noteq> Finite 0)"
| "truthy (JStr s) = (s \<noteq> [])"
| "truthy (JList xs) = (xs \<noteq> [])"
| "truthy (JDict kvs) = (kvs \<noteq> [])"

text \<open>
  \<^verbatim>\<open>v == b\<close> for a bool \<open>b\<close>: \<^verbatim>\<open>bool\<close> is a subclass of \<^verbatim>\<open>int\<close>, so \<^verbatim>\<open>1 == True\<close> and
  \<^verbatim>\<open>0.0 == False\<close> hold; no string, list, dict or \<^verbatim>\<open>None\<close> equals a bool.
\<close>

fun py_eq_bool :: "json \<Rightarrow> bool \<Rightarrow> bool" where
  "py_eq_bool (JBool c) b = (c = b)"
| "py_eq_bool (JInt i) b = (i = (if b then 1 else 0))"
| "py_eq_bool (JFloat f) b = (f = Finite (if b then 1 else 0))"
| "py_eq_bool JNull b = False"
| "py_eq_bool (JStr s) b = False"
| "py_eq_bool (JList xs) b = False"
| "py_eq_bool (JDict kvs) b = False"

text \<open>
  \<^verbatim>\<open>v.get(key, default)\<close>: only a dict has the method; on any other decoded value the
  attribute lookup raises \<^verbatim>\<open>AttributeError\<close>.
\<close>

fun py_get :: "json \<Rightarrow> string \<Rightarrow> json \<Rightarrow> exn + json" where
  "py_get (JDict kvs) key dflt = Inr (case map_of kvs key of None \<Rightarrow> dflt | Some v \<Rightarrow> v)"
| "py_get v key dflt =
     Inl (Exc ''AttributeError''
       (quoted (type_name v) @ '' object has no attribute '' @ quoted ''get''))"

text \<open>\<^verbatim>\<open>v[key]\<close> for a string key.\<close>

fun py_getitem :: "json \<Rightarrow> string \<Rightarrow> exn + json" where
  "py_getitem (JDict kvs) key =
     (case map_of kvs key of
        None \<Rightarrow> Inl (Exc ''KeyError'' (quoted key))
      | Some v \<Rightarrow> Inr v)"
| "py_getitem (JStr s) key = Inl (Exc ''TypeError'' ''string indices must be integers'')"
| "py_getitem (JList xs) key =
     Inl (Exc ''TypeError'' ''list indices must be integers or slices, not str'')"
| "py_getitem v key =
     Inl (Exc ''TypeError'' (quoted (type_name v) @ '' object is not subscriptable''))"

text \<open>\<^verbatim>\<open>len(v)\<close>: defined on strings, lists and dicts; a \<^verbatim>\<open>TypeError\<close> on the rest.\<close>

fun py_len :: "json \<Rightarrow> exn + nat" where
  "py_len (JStr s) = Inr (length s)"
| "py_len (JList xs) = Inr (length xs)"
| "py_len (JDict kvs) = Inr (length (remdups (map fst kvs)))"
| "py_len v = Inl (Exc ''TypeError'' (''object of type '' @ quoted (type_name v) @ '' has no len()''))"

subsection \<open>Effects\<close>

text \<open>
  A printed line is kept as the fields of its f-string: literal text and interpolated
  strings are \<open>S\<close>, an interpolated decoded value (rendered by \<^verbatim>\<open>str()\<close>) is \<open>V\<close>, an
  interpolated length is \<open>N\<close>, an interpolated float is \<open>R\<close>. The requests carry \<^verbatim>\<open>timeout=10\<close> throughout; \<open>Sleep n\<close> is
  \<^verbatim>\<open>time.sleep(n)\<close>. \<open>Subprocess args\<close> is \<^verbatim>\<open>subprocess.run(args)\<close>, \<open>Import m\<close> an
  \<^verbatim>\<open>import m\<close> statement, \<open>Rmtree p\<close> is \<^verbatim>\<open>shutil.rmtree(p)\<close>. Writing to the console and
  sleeping always succeed in the model; requests, decoding, subprocesses, imports and file
  operations are the steps that can raise.
\<close>

datatype field = S string | V json | N nat | R rat

datatype event =
    HttpGet string
  | HttpPost string "json option"
  | Sleep nat
  | Print "field list"
  | Subprocess "string list"
  | Import string
  | Rmtree string

text \<open>
  What a request does: it raises, or it returns a response whose \<^verbatim>\<open>.json()\<close> raises or
  yields a decoded value. The server (with the network in between) is a function of
  everything that happened so far, the request included.
\<close>

type_synonym response = "exn + json"

datatype http_outcome = Raises exn | Response response

type_synonym server = "event list \<Rightarrow> http_outcome"

type_synonym 'a io = "event list \<Rightarrow> (exn + 'a) \<times> event list"

definition io_return :: "'a \<Rightarrow> 'a io" where
  "io_return x = (\<lambda>tr. (Inr x, tr))"

definition io_lift :: "exn + 'a \<Rightarrow> 'a io" where
  "io_lift r = (\<lambda>tr. (r, tr))"

definition io_bind :: "'a io \<Rightarrow> ('a \<Rightarrow> 'b io) \<Rightarrow> 'b io" where
  "io_bind m f = (\<lambda>tr. case m tr of (Inl e, tr') \<Rightarrow> (Inl e, tr') | (Inr x, tr') \<Rightarrow> f x tr')"

text \<open>
  \<^verbatim>\<open>try: m except ...\<close>: the handler \<open>h\<close> answers \<open>None\<close> for an exception that no
  \<^verbatim>\<open>except\<close> clause matches, which then propagates.
\<close>

definition io_try :: "'a io \<Rightarrow> (exn \<Rightarrow> 'a io option) \<Rightarrow> 'a io" where
  "io_try m h =
     (\<lambda>tr. case m tr of
        (Inr x, tr') \<Rightarrow> (Inr x, tr')
      | (Inl e, tr') \<Rightarrow> (case h e of None \<Rightarrow> (Inl e, tr') | Some k \<Rightarrow> k tr'))"

fun io_seq :: "unit io list \<Rightarrow> unit io" where
  "io_seq [] = io_return ()"
| "io_seq (m # ms) = io_bind m (\<lambda>_. io_seq ms)"

text \<open>A call whose result the script drops.\<close>

definition io_ignore :: "'a io \<Rightarrow> unit io" where
  "io_ignore m = io_bind m (\<lambda>_. io_return ())"

definition print :: "field list \<Rightarrow> unit io" where
  "print fs = (\<lambda>tr. (Inr (), tr @ [Print fs]))"

definition sleep :: "nat \<Rightarrow> unit io" where
  "sleep n = (\<lambda>tr. (Inr (), tr @ [Sleep n]))"

definition send :: "server \<Rightarrow> event \<Rightarrow> response io" where
  "send env req =
     (\<lambda>tr. case env (tr @ [req]) of
        Raises e \<Rightarrow> (Inl e, tr @ [req])
      | Response r \<Rightarrow> (Inr r, tr @ [req]))"

definition requests_get :: "server \<Rightarrow> string \<Rightarrow> response io" where
  "requests_get env url = send env (HttpGet url)"

definition requests_post :: "server \<Rightarrow> string \<Rightarrow> json option \<Rightarrow> response io" where
  "requests_post env url data = send env (HttpPost url data)"

definition response_json :: "response \<Rightarrow> json io" where
  "response_json r = io_lift r"

definition get :: "json \<Rightarrow> string \<Rightarrow> json \<Rightarrow> json io" where
  "get v key dflt = io_lift (py_get v key dflt)"

definition getitem :: "json \<Rightarrow> string \<Rightarrow> json io" where
  "getitem v key = io_lift (py_getitem v key)"

definition len :: "json \<Rightarrow> nat io" where
  "len v = io_lift (py_len v)"

section \<open>test\_all\_features.py\<close>

definition BASE_URL :: string where
  "BASE_URL = ''http://127.0.0.1:8765''"

text \<open>
  \<^verbatim>\<open>test_endpoint(method, endpoint, data=None, expected_success=True)\<close>. The URL is
  built before the \<^verbatim>\<open>try\<close>; everything else runs under \<^verbatim>\<open>except Exception as e\<close>. In
  \<^verbatim>\<open>result.get('error', result.get('message', 'Unknown'))\<close> the inner call is evaluated
  first.
\<close>

definition test_endpoint :: "server \<Rightarrow> string \<Rightarrow> string \<Rightarrow> json option \<Rightarrow> bool \<Rightarrow> json io" where
  "test_endpoint env method endpoint data expected_success =
     (let url = BASE_URL @ endpoint in
      io_try
        (io_bind (if method = ''GET'' then requests_get env url
                  else requests_post env url data) (\<lambda>response.
         io_bind (response_json response) (\<lambda>result.
         io_bind (get result ''success'' JNull) (\<lambda>success.
         let status = (if py_eq_bool success expected_success then ''OK'' else ''FAIL'') in
         io_bind (print [S (''  ['' @ status @ ''] '' @ method @ '' '' @ endpoint)]) (\<lambda>_.
         io_bind (get result ''success'' JNull) (\<lambda>success.
         io_bind (if \<not> truthy success \<and> expected_success
                  then io_bind (get result ''message'' (JStr ''Unknown'')) (\<lambda>message.
                       io_bind (get result ''error'' message) (\<lambda>error.
                       print [S ''       Error: '', V error]))
                  else io_return ()) (\<lambda>_.
         io_return result)))))))
        (\<lambda>e. case e of
           Exc cls msg \<Rightarrow> Some
             (io_bind (print [S (''  [ERROR] '' @ method @ '' '' @ endpoint @ '': '' @ msg)]) (\<lambda>_.
              io_return (JDict [(''success'', JBool False), (''error'', JStr msg)])))
         | _ \<Rightarrow> None))"

definition test_health :: "server \<Rightarrow> json io" where
  "test_health env =
     io_bind (print [S ''\<newline>=== Health Check ==='']) (\<lambda>_.
     test_endpoint env ''GET'' ''/health'' None True)"

text \<open>
  The three feature tests are straight-line code: prints, calls of \<^verbatim>\<open>test_endpoint\<close>
  (with the default \<^verbatim>\<open>expected_success=True\<close>) and one \<^verbatim>\<open>time.sleep(1)\<close> after the
  launch. \<^verbatim>\<open>a and b\<close> evaluates \<open>b\<close> only when \<open>a\<close> is true.
\<close>

definition test_word_features :: "server \<Rightarrow> unit io" where
  "test_word_features env = io_seq
     [print [S (''\<newline>'' @ replicate 50 (CHR ''=''))],
      print [S ''=== Microsoft Word Tests ===''],
      print [S (replicate 50 (CHR ''=''))],
      print [S ''\<newline>--- Basic Operations ---''],
      io_ignore (test_endpoint env ''POST'' ''/word/launch'' None True),
      sleep 1,
      io_ignore (test_endpoint env ''POST'' ''/word/create'' None True),
      print [S ''\<newline>--- Write and Read ---''],
      io_ignore (test_endpoint env ''POST'' ''/word/write'' (Some (JDict [(''text'',
          JStr ''Hello World! This is a test document.\<newline>\<newline>'')])) True),
      io_ignore (test_endpoint env ''GET'' ''/word/read'' None True),
      print [S ''\<newline>--- Font Settings ---''],
      io_ignore (test_endpoint env ''POST'' ''/word/write'' (Some (JDict [(''text'',
          JStr ''Bold and Red Text\<newline>'')])) True),
      io_ignore (test_endpoint env ''POST'' ''/word/set_font'' (Some (JDict [(''font_name'',
          JStr ''Arial''), (''font_size'', JInt 16), (''bold'', JBool True), (''color'',
          JStr ''#FF0000'')])) True),
      print [S ''\<newline>--- Paragraph Formatting ---''],
      io_ignore (test_endpoint env ''POST'' ''/word/write'' (Some (JDict [(''text'',
          JStr ''\<newline>Centered paragraph with double spacing.\<newline>'')])) True),
      io_ignore (test_endpoint env ''POST'' ''/word/set_paragraph'' (Some (JDict [(''alignment'',
          JStr ''center''), (''line_spacing'', JFloat (Finite 2))])) True),
      print [S ''\<newline>--- Hyperlink ---''],
      io_ignore (test_endpoint env ''POST'' ''/word/add_hyperlink'' (Some (JDict [(''url'',
          JStr ''https://www.google.com''), (''display_text'', JStr ''Visit Google''),
          (''tooltip'', JStr ''Click to visit Google'')])) True),
      print [S ''\<newline>--- Insert Break ---''],
      io_ignore (test_endpoint env ''POST'' ''/word/insert_break'' (Some (JDict [(''type'',
          JStr ''line'')])) True),
      io_ignore (test_endpoint env ''POST'' ''/word/write'' (Some (JDict [(''text'',
          JStr ''\<newline>After line break.\<newline>'')])) True),
      print [S ''\<newline>--- Table ---''],
      io_ignore (test_endpoint env ''POST'' ''/word/add_table'' (Some (JDict [(''rows'',
          JInt 3), (''cols'', JInt 3), (''values'', JList [JList [JStr ''Name'', JStr ''Age'',
          JStr ''City''], JList [JStr ''Alice'', JStr ''25'', JStr ''Seoul''],
          JList [JStr ''Bob'', JStr ''30'', JStr ''Busan'']])])) True),
      print [S ''\<newline>--- Find and Replace ---''],
      io_ignore (test_endpoint env ''POST'' ''/word/find_replace'' (Some (JDict [(''find'',
          JStr ''Hello''), (''replace'', JStr ''Hi''), (''replace_all'', JBool True)])) True),
      print [S ''\<newline>--- Style ---''],
      io_ignore (test_endpoint env ''POST'' ''/word/write'' (Some (JDict [(''text'',
          JStr ''\<newline>\<newline>This should be a heading\<newline>'')])) True),
      io_ignore (test_endpoint env ''POST'' ''/word/set_style'' (Some (JDict [(''style'',
          JStr ''Heading 1'')])) True),
      print [S ''\<newline>--- Selection ---''],
      io_ignore (test_endpoint env ''POST'' ''/word/select_all'' None True),
      io_ignore (test_endpoint env ''GET'' ''/word/get_selection'' None True),
      print [S ''\<newline>--- Screenshot ---''],
      io_bind (test_endpoint env ''GET'' ''/word/screenshot'' None True) (\<lambda>result.
      io_bind (get result ''success'' JNull) (\<lambda>success.
      if truthy success
      then io_bind (get result ''image'' JNull) (\<lambda>image.
           if truthy image
           then io_bind (getitem result ''image'') (\<lambda>image.
                io_bind (len image) (\<lambda>n.
                print [S ''       Screenshot captured: '', N n, S '' bytes (base64)'']))
           else io_return ())
      else io_return ())),
      print [S ''\<newline>--- Close ---''],
      io_ignore (test_endpoint env ''POST'' ''/word/close'' (Some (JDict [(''save'',
          JBool False)])) True),
      print [S ''\<newline>[Word Tests Complete]'']]"

definition test_excel_features :: "server \<Rightarrow> unit io" where
  "test_excel_features env = io_seq
     [print [S (''\<newline>'' @ replicate 50 (CHR ''=''))],
      print [S ''=== Microsoft Excel Tests ===''],
      print [S (replicate 50 (CHR ''=''))],
      print [S ''\<newline>--- Basic Operations ---''],
      io_ignore (test_endpoint env ''POST'' ''/excel/launch'' None True),
      sleep 1,
      io_ignore (test_endpoint env ''POST'' ''/excel/create'' None True),
      print [S ''\<newline>--- Write/Read Cell ---''],
      io_ignore (test_endpoint env ''POST'' ''/excel/write_cell'' (Some (JDict [(''cell'',
          JStr ''A1''), (''value'', JStr ''Product'')])) True),
      io_ignore (test_endpoint env ''POST'' ''/excel/write_cell'' (Some (JDict [(''cell'',
          JStr ''B1''), (''value'', JStr ''Price'')])) True),
      io_ignore (test_endpoint env ''POST'' ''/excel/write_cell'' (Some (JDict [(''cell'',
          JStr ''C1''), (''value'', JStr ''Quantity'')])) True),
      io_ignore (test_endpoint env ''POST'' ''/excel/read_cell'' (Some (JDict [(''cell'',
          JStr ''A1'')])) True),
      print [S ''\<newline>--- Write/Read Range ---''],
      io_ignore (test_endpoint env ''POST'' ''/excel/write_range'' (Some (JDict [(''start_cell'',
          JStr ''A2''), (''values'', JList [JList [JStr ''Apple'', JInt 100, JInt 10],
          JList [JStr ''Banana'', JInt 50, JInt 20], JList [JStr ''Orange'', JInt 75,
          JInt 15]])])) True),
      io_bind (test_endpoint env ''POST'' ''/excel/read_range'' (Some (JDict [(''range'', JStr ''A1:C4'')])) True) (\<lambda>result.
      io_bind (get result ''success'' JNull) (\<lambda>success.
      if truthy success
      then io_bind (get result ''values'' JNull) (\<lambda>values.
           print [S ''       Values: '', V values])
      else io_return ())),
      print [S ''\<newline>--- Formula ---''],
      io_ignore (test_endpoint env ''POST'' ''/excel/write_cell'' (Some (JDict [(''cell'',
          JStr ''D1''), (''value'', JStr ''Total'')])) True),
      io_ignore (test_endpoint env ''POST'' ''/excel/set_formula'' (Some (JDict [(''cell'',
          JStr ''D2''), (''formula'', JStr ''=B2*C2'')])) True),
      io_ignore (test_endpoint env ''POST'' ''/excel/set_formula'' (Some (JDict [(''cell'',
          JStr ''D3''), (''formula'', JStr ''=B3*C3'')])) True),
      io_ignore (test_endpoint env ''POST'' ''/excel/set_formula'' (Some (JDict [(''cell'',
          JStr ''D4''), (''formula'', JStr ''=B4*C4'')])) True),
      io_ignore (test_endpoint env ''POST'' ''/excel/set_formula'' (Some (JDict [(''cell'',
          JStr ''D5''), (''formula'', JStr ''=SUM(D2:D4)'')])) True),
      io_ignore (test_endpoint env ''POST'' ''/excel/read_cell'' (Some (JDict [(''cell'',
          JStr ''D5'')])) True),
      print [S ''\<newline>--- Font Settings ---''],
      io_ignore (test_endpoint env ''POST'' ''/excel/set_font'' (Some (JDict [(''range'',
          JStr ''A1:D1''), (''font_name'', JStr ''Arial''), (''font_size'', JInt 14),
          (''bold'', JBool True), (''color'', JStr ''#0000FF'')])) True),
      print [S ''\<newline>--- Alignment ---''],
      io_ignore (test_endpoint env ''POST'' ''/excel/set_alignment'' (Some (JDict [(''range'',
          JStr ''A1:D1''), (''horizontal'', JStr ''center''), (''vertical'',
          JStr ''center'')])) True),
      print [S ''\<newline>--- Column Width ---''],
      io_ignore (test_endpoint env ''POST'' ''/excel/set_column_width'' (Some (JDict [(''column'',
          JStr ''A''), (''auto_fit'', JBool True)])) True),
      io_ignore (test_endpoint env ''POST'' ''/excel/set_column_width'' (Some (JDict [(''column'',
          JStr ''B''), (''width'', JInt 15)])) True),
      print [S ''\<newline>--- Row Height ---''],
      io_ignore (test_endpoint env ''POST'' ''/excel/set_row_height'' (Some (JDict [(''row'',
          JInt 1), (''height'', JInt 25)])) True),
      print [S ''\<newline>--- Fill Color ---''],
      io_ignore (test_endpoint env ''POST'' ''/excel/set_fill'' (Some (JDict [(''range'',
          JStr ''A1:D1''), (''color'', JStr ''#FFFF00'')])) True),
      print [S ''\<newline>--- Border ---''],
      io_ignore (test_endpoint env ''POST'' ''/excel/set_border'' (Some (JDict [(''range'',
          JStr ''A1:D5''), (''style'', JStr ''thin''), (''edges'', JStr ''all'')])) True),
      print [S ''\<newline>--- Number Format ---''],
      io_ignore (test_endpoint env ''POST'' ''/excel/set_number_format'' (Some (JDict [(''range'',
          JStr ''B2:B4''), (''format'', JStr ''#,##0'')])) True),
      io_ignore (test_endpoint env ''POST'' ''/excel/set_number_format'' (Some (JDict [(''range'',
          JStr ''D2:D5''), (''format'', JStr ''#,##0'')])) True),
      print [S ''\<newline>--- Merge Cells ---''],
      io_ignore (test_endpoint env ''POST'' ''/excel/write_cell'' (Some (JDict [(''cell'',
          JStr ''A7''), (''value'', JStr ''Merged Header'')])) True),
      io_ignore (test_endpoint env ''POST'' ''/excel/merge_cells'' (Some (JDict [(''range'',
          JStr ''A7:D7'')])) True),
      print [S ''\<newline>--- Sheet Operations ---''],
      io_ignore (test_endpoint env ''GET'' ''/excel/get_sheets'' None True),
      io_ignore (test_endpoint env ''POST'' ''/excel/add_sheet'' (Some (JDict [(''name'',
          JStr ''TestSheet'')])) True),
      io_ignore (test_endpoint env ''POST'' ''/excel/rename_sheet'' (Some (JDict [(''old_name'', JStr ''TestSheet''),
          (''new_name'', JStr ''RenamedSheet'')])) True),
      io_ignore (test_endpoint env ''GET'' ''/excel/get_sheets'' None True),
      io_ignore (test_endpoint env ''POST'' ''/excel/delete_sheet'' (Some (JDict [(''name'',
          JStr ''RenamedSheet'')])) True),
      print [S ''\<newline>--- Insert/Delete Row/Column ---''],
      io_ignore (test_endpoint env ''POST'' ''/excel/insert_row'' (Some (JDict [(''row'',
          JInt 2), (''count'', JInt 1)])) True),
      io_ignore (test_endpoint env ''POST'' ''/excel/insert_column'' (Some (JDict [(''column'',
          JStr ''A''), (''count'', JInt 1)])) True),
      io_ignore (test_endpoint env ''POST'' ''/excel/delete_row'' (Some (JDict [(''row'',
          JInt 2), (''count'', JInt 1)])) True),
      io_ignore (test_endpoint env ''POST'' ''/excel/delete_column'' (Some (JDict [(''column'',
          JStr ''A''), (''count'', JInt 1)])) True),
      print [S ''\<newline>--- Auto Filter ---''],
      io_ignore (test_endpoint env ''POST'' ''/excel/auto_filter'' (Some (JDict [(''range'',
          JStr ''A1:D5'')])) True),
      io_ignore (test_endpoint env ''POST'' ''/excel/auto_filter'' (Some (JDict [(''remove'',
          JBool True)])) True),
      print [S ''\<newline>--- Freeze Panes ---''],
      io_ignore (test_endpoint env ''POST'' ''/excel/freeze_panes'' (Some (JDict [(''cell'',
          JStr ''A2'')])) True),
      io_ignore (test_endpoint env ''POST'' ''/excel/freeze_panes'' (Some (JDict [(''unfreeze'', JBool True)])) True),
      print [S ''\<newline>--- Screenshot ---''],
      io_bind (test_endpoint env ''GET'' ''/excel/screenshot'' None True) (\<lambda>result.
      io_bind (get result ''success'' JNull) (\<lambda>success.
      if truthy success
      then io_bind (get result ''image'' JNull) (\<lambda>image.
           if truthy image
           then io_bind (getitem result ''image'') (\<lambda>image.
                io_bind (len image) (\<lambda>n.
                print [S ''       Screenshot captured: '', N n, S '' bytes (base64)'']))
           else io_return ())
      else io_return ())),
      print [S ''\<newline>--- Close ---''],
      io_ignore (test_endpoint env ''POST'' ''/excel/close'' (Some (JDict [(''save'',
          JBool False)])) True),
      print [S ''\<newline>[Excel Tests Complete]'']]"

definition test_powerpoint_features :: "server \<Rightarrow> unit io" where
  "test_powerpoint_features env = io_seq
     [print [S (''\<newline>'' @ replicate 50 (CHR ''=''))],
      print [S ''=== Microsoft PowerPoint Tests ===''],
      print [S (replicate 50 (CHR ''=''))],
      print [S ''\<newline>--- Basic Operations ---''],
      io_ignore (test_endpoint env ''POST'' ''/powerpoint/launch'' None True),
      sleep 1,
      io_ignore (test_endpoint env ''POST'' ''/powerpoint/create'' None True),
      print [S ''\<newline>--- Add Slides ---''],
      io_ignore (test_endpoint env ''POST'' ''/powerpoint/add_slide'' (Some (JDict [(''layout'', JInt 1)])) True),
      io_ignore (test_endpoint env ''POST'' ''/powerpoint/add_slide'' (Some (JDict [(''layout'', JInt 2)])) True),
      io_ignore (test_endpoint env ''GET'' ''/powerpoint/get_slide_count'' None True),
      print [S ''\<newline>--- Write Text ---''],
      io_ignore (test_endpoint env ''POST'' ''/powerpoint/write_text'' (Some (JDict [(''slide'', JInt 1),
          (''shape'', JInt 1), (''text'', JStr ''Presentation Title'')])) True),
      io_ignore (test_endpoint env ''POST'' ''/powerpoint/write_text'' (Some (JDict [(''slide'', JInt 1),
          (''shape'', JInt 2), (''text'', JStr ''Subtitle goes here'')])) True),
      print [S ''\<newline>--- Add Textbox ---''],
      io_ignore (test_endpoint env ''POST'' ''/powerpoint/add_textbox'' (Some (JDict [(''slide'',
          JInt 2), (''text'', JStr ''Custom textbox content''), (''left'', JInt 100), (''top'',
          JInt 300), (''width'', JInt 400), (''height'', JInt 50)])) True),
      print [S ''\<newline>--- Set Font ---''],
      io_ignore (test_endpoint env ''POST'' ''/powerpoint/set_font'' (Some (JDict [(''slide'',
          JInt 1), (''shape'', JInt 1), (''font_name'', JStr ''Arial''), (''font_size'',
          JInt 44), (''bold'', JBool True), (''color'', JStr ''#0066CC'')])) True),
      print [S ''\<newline>--- Read Slide ---''],
      io_bind (test_endpoint env ''POST'' ''/powerpoint/read_slide'' (Some (JDict [(''slide'', JInt 1)])) True) (\<lambda>result.
      io_bind (get result ''success'' JNull) (\<lambda>success.
      if truthy success
      then io_bind (get result ''shapes'' (JList [])) (\<lambda>shapes.
           io_bind (len shapes) (\<lambda>n.
           print [S ''       Shapes: '', N n]))
      else io_return ())),
      print [S ''\<newline>--- Set Background ---''],
      io_ignore (test_endpoint env ''POST'' ''/powerpoint/set_background'' (Some (JDict [(''slide'',
          JInt 2), (''color'', JStr ''#E0E0E0'')])) True),
      print [S ''\<newline>--- Add Animation ---''],
      io_ignore (test_endpoint env ''POST'' ''/powerpoint/add_animation'' (Some (JDict [(''slide'',
          JInt 1), (''shape'', JInt 1), (''effect'', JStr ''fade''), (''trigger'',
          JStr ''on_click'')])) True),
      print [S ''\<newline>--- Screenshot ---''],
      io_bind (test_endpoint env ''GET'' ''/powerpoint/screenshot'' None True) (\<lambda>result.
      io_bind (get result ''success'' JNull) (\<lambda>success.
      if truthy success
      then io_bind (get result ''image'' JNull) (\<lambda>image.
           if truthy image
           then io_bind (getitem result ''image'') (\<lambda>image.
                io_bind (len image) (\<lambda>n.
                print [S ''       Screenshot captured: '', N n, S '' bytes (base64)'']))
           else io_return ())
      else io_return ())),
      print [S ''\<newline>--- Close ---''],
      io_ignore (test_endpoint env ''POST'' ''/powerpoint/close'' (Some (JDict [(''save'',
          JBool False)])) True),
      print [S ''\<newline>[PowerPoint Tests Complete]'']]"

text \<open>
  \<^verbatim>\<open>main\<close>: the health check is outside the \<^verbatim>\<open>try\<close>; the three feature tests run under
  \<^verbatim>\<open>except KeyboardInterrupt\<close>.
\<close>

definition main :: "server \<Rightarrow> unit io" where
  "main env =
     io_bind (print [S (replicate 60 (CHR ''=''))]) (\<lambda>_.
     io_bind (print [S ''Office Automation Server - Comprehensive Feature Test'']) (\<lambda>_.
     io_bind (print [S (replicate 60 (CHR ''=''))]) (\<lambda>_.
     io_bind (test_health env) (\<lambda>health.
     io_bind (get health ''success'' JNull) (\<lambda>success.
     if \<not> truthy success
     then print [S ''\<newline>[ERROR] Server not running! Please start the server first.'']
     else io_seq
       [io_bind (get health ''status'' JNull) (\<lambda>status.
        print [S ''\<newline>Server Status: '', V status]),
        io_bind (get health ''version'' JNull) (\<lambda>version.
        print [S ''Version: '', V version]),
        io_try
          (io_seq
             [test_word_features env,
              sleep 1,
              test_excel_features env,
              sleep 1,
              test_powerpoint_features env])
          (\<lambda>e. case e of
             KeyboardInterrupt \<Rightarrow> Some (print [S ''\<newline>\<newline>[Interrupted by user]''])
           | _ \<Rightarrow> None),
        print [S (''\<newline>'' @ replicate 60 (CHR ''=''))],
        print [S ''All tests completed!''],
        print [S (replicate 60 (CHR ''=''))]])))))"

section \<open>build.py\<close>

text \<open>
  What the build script reads from its platform. Every outcome is a function of what
  happened so far (the trace, the operation itself included): a subprocess returns a code
  or fails to start, an import or a removal may raise, and the file system answers
  \<^verbatim>\<open>os.path.exists\<close> and \<^verbatim>\<open>os.path.getsize\<close>. \<open>called_process_error\<close> is the message of the
  \<^verbatim>\<open>CalledProcessError\<close> that \<^verbatim>\<open>check=True\<close> raises.
\<close>

record os =
  sys_platform :: string
  sys_version :: string
  sys_executable :: string
  run_process :: "event list \<Rightarrow> exn + int"
  called_process_error :: "string list \<Rightarrow> int \<Rightarrow> string"
  import_module :: "event list \<Rightarrow> exn option"
  path_exists :: "event list \<Rightarrow> string \<Rightarrow> bool"
  remove_tree :: "event list \<Rightarrow> exn option"
  path_getsize :: "event list \<Rightarrow> string \<Rightarrow> exn + nat"

definition sys_exit :: "int \<Rightarrow> 'a io" where
  "sys_exit n = io_lift (Inl (SystemExit n))"

definition subprocess_run :: "os \<Rightarrow> string list \<Rightarrow> bool \<Rightarrow> int io" where
  "subprocess_run os args check =
     (\<lambda>tr. case run_process os (tr @ [Subprocess args]) of
        Inl e \<Rightarrow> (Inl e, tr @ [Subprocess args])
      | Inr returncode \<Rightarrow>
          if check \<and> returncode \<noteq> 0
          then (Inl (Exc ''CalledProcessError'' (called_process_error os args returncode)),
                tr @ [Subprocess args])
          else (Inr returncode, tr @ [Subprocess args]))"

definition import :: "os \<Rightarrow> string \<Rightarrow> unit io" where
  "import os name =
     (\<lambda>tr. case import_module os (tr @ [Import name]) of
        Some e \<Rightarrow> (Inl e, tr @ [Import name])
      | None \<Rightarrow> (Inr (), tr @ [Import name]))"

definition os_path_exists :: "os \<Rightarrow> string \<Rightarrow> bool io" where
  "os_path_exists os path = (\<lambda>tr. (Inr (path_exists os tr path), tr))"

definition os_path_getsize :: "os \<Rightarrow> string \<Rightarrow> nat io" where
  "os_path_getsize os path = (\<lambda>tr. (path_getsize os tr path, tr))"

definition shutil_rmtree :: "os \<Rightarrow> string \<Rightarrow> unit io" where
  "shutil_rmtree os path =
     (\<lambda>tr. case remove_tree os (tr @ [Rmtree path]) of
        Some e \<Rightarrow> (Inl e, tr @ [Rmtree path])
      | None \<Rightarrow> (Inr (), tr @ [Rmtree path]))"

text \<open>
  \<^verbatim>\<open>os.path.join\<close> is only reached on \<^verbatim>\<open>win32\<close>, where it joins with a backslash.
\<close>

definition os_path_join :: "string \<Rightarrow> string \<Rightarrow> string" where
  "os_path_join a b = a @ [CHR 0x5C] @ b"

text \<open>\<^verbatim>\<open>except ImportError\<close> also catches its subclass \<^verbatim>\<open>ModuleNotFoundError\<close>.\<close>

definition is_ImportError :: "string \<Rightarrow> bool" where
  "is_ImportError cls \<longleftrightarrow> cls = ''ImportError'' \<or> cls = ''ModuleNotFoundError''"

definition build_main :: "os \<Rightarrow> unit io" where
  "build_main os =
     io_bind (print [S (replicate 60 (CHR ''=''))]) (\<lambda>_.
     io_bind (print [S ''Office Server Build Script'']) (\<lambda>_.
     io_bind (print [S (replicate 60 (CHR ''=''))]) (\<lambda>_.
     io_bind (if sys_platform os \<noteq> ''win32''
              then io_bind (print [S ''ERROR: This script must be run on Windows'']) (\<lambda>_.
                   sys_exit 1)
              else io_return ()) (\<lambda>_.
     io_bind (print [S (''Python version: '' @ sys_version os)]) (\<lambda>_.
     io_bind (print [S ''\<newline>[1/4] Installing dependencies...'']) (\<lambda>_.
     io_bind (subprocess_run os
                [sys_executable os, ''-m'', ''pip'', ''install'', ''-r'', ''requirements.txt'']
                True) (\<lambda>_.
     io_bind (print [S ''\<newline>[2/4] Verifying pywin32...'']) (\<lambda>_.
     io_bind (io_try
                (io_bind (import os ''win32com.client'') (\<lambda>_.
                 io_bind (import os ''pythoncom'') (\<lambda>_.
                 print [S ''  pywin32 OK''])))
                (\<lambda>e. case e of
                   Exc cls msg \<Rightarrow>
                     if is_ImportError cls
                     then Some
                       (io_bind (print [S (''ERROR: pywin32 not properly installed: '' @ msg)]) (\<lambda>_.
                        io_bind (print [S ''Try running: python -m pip install pywin32'']) (\<lambda>_.
                        io_bind (print
                          [S ''Then run: python Scripts/pywin32_postinstall.py -install'']) (\<lambda>_.
                        sys_exit 1))))
                     else None
                 | _ \<Rightarrow> None)) (\<lambda>_.
     io_bind (print [S ''\<newline>[3/4] Cleaning previous builds...'']) (\<lambda>_.
     io_bind (io_seq (map (\<lambda>folder.
                io_bind (os_path_exists os folder) (\<lambda>found.
                if found
                then io_bind (shutil_rmtree os folder) (\<lambda>_.
                     print [S (''  Removed '' @ folder @ ''/'')])
                else io_return ()))
              [''build'', ''dist''])) (\<lambda>_.
     io_bind (print [S ''\<newline>[4/4] Building with PyInstaller...'']) (\<lambda>_.
     io_bind (subprocess_run os
                [sys_executable os, ''-m'', ''PyInstaller'',
                 ''--onefile'',
                 ''--console'',
                 ''--name'', ''office-server'',
                 ''--hidden-import'', ''win32com'',
                 ''--hidden-import'', ''win32com.client'',
                 ''--hidden-import'', ''win32gui'',
                 ''--hidden-import'', ''win32ui'',
                 ''--hidden-import'', ''win32con'',
                 ''--hidden-import'', ''win32api'',
                 ''--hidden-import'', ''pythoncom'',
                 ''--hidden-import'', ''pywintypes'',
                 ''--hidden-import'', ''flask'',
                 ''--hidden-import'', ''flask_cors'',
                 ''--hidden-import'', ''PIL'',
                 ''--hidden-import'', ''PIL.Image'',
                 ''server.py'']
                False) (\<lambda>returncode.
     io_bind (if returncode \<noteq> 0
              then io_bind (print [S ''\<newline>ERROR: PyInstaller build failed'']) (\<lambda>_.
                   sys_exit 1)
              else io_return ()) (\<lambda>_.
     let exe_path = os_path_join ''dist'' ''office-server.exe'' in
     io_bind (os_path_exists os exe_path) (\<lambda>found.
     if found
     then io_bind (os_path_getsize os exe_path) (\<lambda>size.
          let size_mb = rat_of_nat size / (1024 * 1024) in
          io_seq
            [print [S (''\<newline>'' @ replicate 60 (CHR ''=''))],
             print [S ''BUILD SUCCESSFUL!''],
             print [S (replicate 60 (CHR ''=''))],
             print [S (''Output: '' @ exe_path)],
             print [S ''Size: '', R size_mb, S '' MB''],
             print [S ''\<newline>To test:''],
             print [S (''  '' @ exe_path @ '' --port 8765'')],
             print [S ''\<newline>To copy to bin folder:''],
             print [S (''  copy '' @ exe_path @ '' ..'' @ [CHR 0x5C] @ ''bin'' @ [CHR 0x5C])]])
     else io_bind (print [S ''\<newline>ERROR: Output file not found'']) (\<lambda>_.
          sys_exit 1))))))))))))))))"

section \<open>Observations on a run\<close>

text \<open>The events a computation adds to the trace it starts from.\<close>

definition events_of :: "'a io \<Rightarrow> event list \<Rightarrow> event list" where
  "events_of m tr = drop (length tr) (snd (m tr))"

fun is_request :: "event \<Rightarrow> bool" where
  "is_request (HttpGet url) = True"
| "is_request (HttpPost url body) = True"
| "is_request e = False"

definition requests :: "event list \<Rightarrow> event list" where
  "requests evs = filter is_request evs"

text \<open>The tag of a status line; \<open>None\<close> for any other event.\<close>

fun tag :: "event \<Rightarrow> string option" where
  "tag (Print (S s # fs)) =
     (if take 7 s = ''  [OK] '' then Some ''OK''
      else if take 9 s = ''  [FAIL] '' then Some ''FAIL''
      else if take 10 s = ''  [ERROR] '' then Some ''ERROR''
      else None)"
| "tag e = None"

definition labels :: "event list \<Rightarrow> string list" where
  "labels evs = List.map_filter tag evs"

text \<open>The value shown by a diagnostic line \<^verbatim>\<open>Error: ...\<close>.\<close>

fun diagnostic :: "event \<Rightarrow> json option" where
  "diagnostic (Print [S s, V v]) = (if s = ''       Error: '' then Some v else None)"
| "diagnostic e = None"

definition diagnostics :: "event list \<Rightarrow> json list" where
  "diagnostics evs = List.map_filter diagnostic evs"

text \<open>The request a call of \<^const>\<open>test_endpoint\<close> sends, and the read of a dict.\<close>

definition request_of :: "string \<Rightarrow> string \<Rightarrow> json option \<Rightarrow> event" where
  "request_of method endpoint data =
     (if method = ''GET'' then HttpGet (BASE_URL @ endpoint)
      else HttpPost (BASE_URL @ endpoint) data)"

definition field_of :: "(string \<times> json) list \<Rightarrow> string \<Rightarrow> json" where
  "field_of kvs key = (case map_of kvs key of None \<Rightarrow> JNull | Some v \<Rightarrow> v)"

definition error_dict :: "string \<Rightarrow> json" where
  "error_dict msg = JDict [(''success'', JBool False), (''error'', JStr msg)]"

text \<open>What the \<^verbatim>\<open>except Exception\<close> branch of \<^const>\<open>test_endpoint\<close> does.\<close>

definition caught :: "string \<Rightarrow> string \<Rightarrow> string \<Rightarrow> event list \<Rightarrow> (exn + json) \<times> event list" where
  "caught method endpoint msg tr =
     (Inr (error_dict msg),
      tr @ [Print [S (''  [ERROR] '' @ method @ '' '' @ endpoint @ '': '' @ msg)]])"

text \<open>Observations on the feature tests and \<^verbatim>\<open>main\<close>.\<close>

definition interrupted :: "exn + 'a \<Rightarrow> bool" where
  "interrupted r = (case r of Inl e \<Rightarrow> \<not> is_Exception e | Inr x \<Rightarrow> False)"

fun is_print :: "event \<Rightarrow> bool" where
  "is_print (Print fs) = True"
| "is_print e = False"

definition effects :: "event list \<Rightarrow> event list" where
  "effects evs = filter (\<lambda>e. \<not> is_print e) evs"

fun targets :: "string \<Rightarrow> event \<Rightarrow> bool" where
  "targets endpoint (HttpGet url) = (url = BASE_URL @ endpoint)"
| "targets endpoint (HttpPost url body) = (url = BASE_URL @ endpoint)"
| "targets endpoint e = False"

fun posts_json :: "string \<Rightarrow> string list \<Rightarrow> event \<Rightarrow> bool" where
  "posts_json endpoint keys (HttpPost url (Some (JDict kvs))) =
     (url = BASE_URL @ endpoint \<and> map fst kvs = keys)"
| "posts_json endpoint keys e = False"

definition health_reply :: "server \<Rightarrow> event list \<Rightarrow> http_outcome" where
  "health_reply env tr =
     env (tr @ [Print [S (replicate 60 (CHR ''=''))],
                Print [S ''Office Automation Server - Comprehensive Feature Test''],
                Print [S (replicate 60 (CHR ''=''))],
                Print [S ''\<newline>=== Health Check ===''],
                HttpGet (BASE_URL @ ''/health'')])"

fun healthy :: "http_outcome \<Rightarrow> bool" where
  "healthy (Response (Inr (JDict kvs))) = truthy (field_of kvs ''success'')"
| "healthy r = False"

fun interrupts :: "http_outcome \<Rightarrow> bool" where
  "interrupts (Raises e) = (\<not> is_Exception e)"
| "interrupts (Response (Inl e)) = (\<not> is_Exception e)"
| "interrupts (Response (Inr v)) = False"

text \<open>
  Properties of a computation used in the proofs: \<open>appends P m\<close> says that \<open>m\<close> only
  extends the trace, by events that satisfy \<open>P\<close>.
\<close>

definition appends :: "(event \<Rightarrow> bool) \<Rightarrow> 'a io \<Rightarrow> bool" where
  "appends P m \<longleftrightarrow> (\<forall>tr. \<exists>evs. snd (m tr) = tr @ evs \<and> list_all P evs)"

text \<open>
  Either the run goes on, or the server side interrupted it: \<open>stopped env\<close> says that some
  request was cut short by an exception outside \<^verbatim>\<open>Exception\<close>.
\<close>

definition stopped :: "server \<Rightarrow> bool" where
  "stopped env \<longleftrightarrow> (\<exists>t. interrupts (env t))"

definition passes :: "server \<Rightarrow> unit io \<Rightarrow> bool" where
  "passes env m \<longleftrightarrow>
     (\<forall>tr. \<exists>evs. snd (m tr) = tr @ evs \<and> (fst (m tr) = Inr () \<or> stopped env))"

definition reaches :: "server \<Rightarrow> (event \<Rightarrow> bool) \<Rightarrow> 'a io \<Rightarrow> bool" where
  "reaches env P m \<longleftrightarrow>
     (\<forall>tr. \<exists>evs. snd (m tr) = tr @ evs \<and> (list_ex P evs \<or> stopped env))"



fun runs_module :: "string \<Rightarrow> event \<Rightarrow> bool" where
  "runs_module name (Subprocess (exe # flag # m # rest)) = (flag = ''-m'' \<and> m = name)"
| "runs_module name e = False"



text \<open>
  The shape of a run of the build script, as the proofs use it: it ends before the build
  step, having neither printed \<open>line\<close> nor started PyInstaller, or it prints \<open>line\<close>, starts
  the subprocess \<open>cmd\<close> and afterwards only prints; and then a non-zero return code or a
  missing \<open>path\<close> ends it in \<^verbatim>\<open>sys.exit(1)\<close>.
\<close>

definition quiet :: "field list \<Rightarrow> event \<Rightarrow> bool" where
  "quiet line e \<longleftrightarrow> e \<noteq> Print line \<and> \<not> runs_module ''PyInstaller'' e"


section \<open>Facts about test\_endpoint\<close>

lemmas io_defs = io_return_def io_lift_def io_bind_def io_try_def io_ignore_def print_def
  sleep_def send_def requests_get_def requests_post_def response_json_def get_def

lemma te_raises_exc:
  "env (tr @ [request_of method endpoint data]) = Raises (Exc c msg) \<Longrightarrow>
   test_endpoint env method endpoint data x tr = caught method endpoint msg (tr @ [request_of method endpoint data])"
  by (cases "method = ''GET''") (simp_all add: test_endpoint_def io_defs request_of_def caught_def Let_def error_dict_def)

lemma te_raises_other:
  "env (tr @ [request_of method endpoint data]) = Raises e \<Longrightarrow> \<not> is_Exception e \<Longrightarrow>
   test_endpoint env method endpoint data x tr = (Inl e, tr @ [request_of method endpoint data])"
  by (cases e; cases "method = ''GET''") (simp_all add: test_endpoint_def io_defs request_of_def caught_def Let_def)

lemma te_json_exc:
  "env (tr @ [request_of method endpoint data]) = Response (Inl (Exc c msg)) \<Longrightarrow>
   test_endpoint env method endpoint data x tr = caught method endpoint msg (tr @ [request_of method endpoint data])"
  by (cases "method = ''GET''") (simp_all add: test_endpoint_def io_defs request_of_def caught_def Let_def error_dict_def)

lemma te_json_other:
  "env (tr @ [request_of method endpoint data]) = Response (Inl e) \<Longrightarrow> \<not> is_Exception e \<Longrightarrow>
   test_endpoint env method endpoint data x tr = (Inl e, tr @ [request_of method endpoint data])"
  by (cases e; cases "method = ''GET''") (simp_all add: test_endpoint_def io_defs request_of_def caught_def Let_def)

lemma te_not_dict:
  "env (tr @ [request_of method endpoint data]) = Response (Inr v) \<Longrightarrow> py_get v ''success'' JNull = Inl (Exc c msg) \<Longrightarrow>
   test_endpoint env method endpoint data x tr = caught method endpoint msg (tr @ [request_of method endpoint data])"
  by (cases "method = ''GET''") (simp_all add: test_endpoint_def io_defs request_of_def caught_def Let_def error_dict_def)

lemma te_dict:
  "env (tr @ [request_of method endpoint data]) = Response (Inr (JDict kvs)) \<Longrightarrow>
   test_endpoint env method endpoint data x tr =
     (Inr (JDict kvs),
      tr @ [request_of method endpoint data,
            Print [S (''  ['' @ (if py_eq_bool (field_of kvs ''success'') x then ''OK'' else ''FAIL'')
                       @ ''] '' @ method @ '' '' @ endpoint)]]
         @ (if \<not> truthy (field_of kvs ''success'') \<and> x
            then [Print [S ''       Error: '',
                         V (case map_of kvs ''error'' of
                              None \<Rightarrow> (case map_of kvs ''message'' of None \<Rightarrow> JStr ''Unknown'' | Some m \<Rightarrow> m)
                            | Some e \<Rightarrow> e)]]
            else []))"
  by (cases "method = ''GET''") (simp_all add: test_endpoint_def io_defs request_of_def Let_def field_of_def)

lemma tag_request [simp]: "tag (request_of method endpoint data) = None"
  by (simp add: request_of_def)

lemma tag_error [simp]: "tag (Print [S (''  [ERROR] '' @ rest)]) = Some ''ERROR''"
  by simp

lemma tag_status [simp]:
  "tag (Print [S (''  ['' @ (if b then ''OK'' else ''FAIL'') @ ''] '' @ rest)]) = Some (if b then ''OK'' else ''FAIL'')"
  by simp

lemma labels_simps [simp]:
  "labels [] = []"
  "labels (e # evs) = (case tag e of None \<Rightarrow> labels evs | Some t \<Rightarrow> t # labels evs)"
  "labels (evs @ evs') = labels evs @ labels evs'"
  by (simp_all add: labels_def List.map_filter_def split: option.splits)




lemma result_test_endpoint:
  "fst (test_endpoint env method endpoint data x tr) =
     (case env (tr @ [request_of method endpoint data]) of
        Raises (Exc cls msg) \<Rightarrow> Inr (error_dict msg)
      | Raises e \<Rightarrow> Inl e
      | Response (Inl (Exc cls msg)) \<Rightarrow> Inr (error_dict msg)
      | Response (Inl e) \<Rightarrow> Inl e
      | Response (Inr (JDict kvs)) \<Rightarrow> Inr (JDict kvs)
      | Response (Inr v) \<Rightarrow>
          Inr (error_dict (quoted (type_name v) @ '' object has no attribute '' @ quoted ''get'')))"
proof (cases "env (tr @ [request_of method endpoint data])")
  case (Raises e)
  then show ?thesis
    by (cases e) (simp_all add: te_raises_exc te_raises_other caught_def)
next
  case (Response r)
  show ?thesis
  proof (cases r)
    case (Inl e)
    with Response show ?thesis
      by (cases e) (simp_all add: te_json_exc te_json_other caught_def)
  next
    case (Inr v)
    with Response show ?thesis
      by (cases v) (simp_all add: te_dict te_not_dict caught_def)
  qed
qed


lemma diagnostics_simps [simp]:
  "diagnostics [] = []"
  "diagnostics (e # evs) = (case diagnostic e of None \<Rightarrow> diagnostics evs | Some v \<Rightarrow> v # diagnostics evs)"
  by (simp_all add: diagnostics_def List.map_filter_def split: option.splits)

lemma diagnostic_request [simp]: "diagnostic (request_of method endpoint data) = None"
  by (simp add: request_of_def)

section \<open>Claims about test\_endpoint\<close>













section \<open>Facts about sequences of calls\<close>

declare io_seq.simps [simp del]

lemma interrupted_simps [simp]:
  "interrupted (Inl e) \<longleftrightarrow> \<not> is_Exception e"
  "interrupted (Inr x) \<longleftrightarrow> False"
  by (simp_all add: interrupted_def)

named_theorems appends_intros

lemma appends_return [appends_intros]: "appends P (io_return x)"
  by (simp add: appends_def io_return_def)

lemma appends_lift [appends_intros]: "appends P (io_lift r)"
  by (simp add: appends_def io_lift_def)

lemma appends_get [appends_intros]: "appends P (get v key dflt)"
  by (simp add: get_def appends_lift)

lemma appends_getitem [appends_intros]: "appends P (getitem v key)"
  by (simp add: getitem_def appends_lift)

lemma appends_len [appends_intros]: "appends P (len v)"
  by (simp add: len_def appends_lift)

lemma appends_print [appends_intros]: "P (Print fs) \<Longrightarrow> appends P (print fs)"
  by (simp add: appends_def print_def)

lemma appends_sleep [appends_intros]: "P (Sleep n) \<Longrightarrow> appends P (sleep n)"
  by (simp add: appends_def sleep_def)

lemma appends_bind [appends_intros]:
  assumes "appends P m" and "\<And>x. appends P (f x)"
  shows "appends P (io_bind m f)"
proof (unfold appends_def, intro allI)
  fix tr
  from assms(1) obtain evs where m: "snd (m tr) = tr @ evs" "list_all P evs"
    by (auto simp add: appends_def)
  show "\<exists>evs. snd (io_bind m f tr) = tr @ evs \<and> list_all P evs"
  proof (cases "fst (m tr)")
    case (Inl e)
    then have "io_bind m f tr = (Inl e, tr @ evs)"
      using m(1) by (cases "m tr") (simp add: io_bind_def)
    with m(2) show ?thesis by simp
  next
    case (Inr x)
    then have run: "io_bind m f tr = f x (tr @ evs)"
      using m(1) by (cases "m tr") (simp add: io_bind_def)
    from assms(2) [of x] obtain evs' where "snd (f x (tr @ evs)) = (tr @ evs) @ evs'" "list_all P evs'"
      unfolding appends_def by blast
    with m(2) run show ?thesis by simp
  qed
qed

lemma appends_ignore [appends_intros]: "appends P m \<Longrightarrow> appends P (io_ignore m)"
  by (simp add: io_ignore_def appends_bind appends_return)

lemma appends_if [appends_intros]:
  "(c \<Longrightarrow> appends P a) \<Longrightarrow> (\<not> c \<Longrightarrow> appends P b) \<Longrightarrow> appends P (if c then a else b)"
  by simp

lemma appends_seq: "list_all (appends P) ms \<Longrightarrow> appends P (io_seq ms)"
  by (induction ms) (simp_all add: io_seq.simps appends_return appends_bind)

lemma appends_try [appends_intros]:
  assumes "appends P m" and "\<And>e k. h e = Some k \<Longrightarrow> appends P k"
  shows "appends P (io_try m h)"
proof (unfold appends_def, intro allI)
  fix tr
  from assms(1) obtain evs where m: "snd (m tr) = tr @ evs" "list_all P evs"
    by (auto simp add: appends_def)
  show "\<exists>evs. snd (io_try m h tr) = tr @ evs \<and> list_all P evs"
  proof (cases "fst (m tr)")
    case (Inr x)
    then have "io_try m h tr = (Inr x, tr @ evs)"
      using m(1) by (cases "m tr") (simp add: io_try_def)
    with m(2) show ?thesis by simp
  next
    case (Inl e)
    show ?thesis
    proof (cases "h e")
      case None
      with Inl have "io_try m h tr = (Inl e, tr @ evs)"
        using m(1) by (cases "m tr") (simp add: io_try_def)
      with m(2) show ?thesis by simp
    next
      case (Some k)
      with Inl have run: "io_try m h tr = k (tr @ evs)"
        using m(1) by (cases "m tr") (simp add: io_try_def)
      from assms(2) [OF Some] obtain evs' where "snd (k (tr @ evs)) = (tr @ evs) @ evs'" "list_all P evs'"
        unfolding appends_def by blast
      with m(2) run show ?thesis by simp
    qed
  qed
qed

text \<open>One call: the request, then only prints.\<close>

lemma test_endpoint_shape:
  "\<exists>ps. snd (test_endpoint env method endpoint data x tr) = tr @ request_of method endpoint data # ps
        \<and> list_all is_print ps"
proof (cases "env (tr @ [request_of method endpoint data])")
  case (Raises e)
  then show ?thesis
    by (cases e) (simp_all add: te_raises_exc te_raises_other caught_def)
next
  case (Response r)
  show ?thesis
  proof (cases r)
    case (Inl e)
    with Response show ?thesis
      by (cases e) (simp_all add: te_json_exc te_json_other caught_def)
  next
    case (Inr v)
    with Response show ?thesis
      by (cases v) (simp_all add: te_dict te_not_dict caught_def)
  qed
qed

lemma appends_test_endpoint [appends_intros]:
  assumes "P (request_of method endpoint data)" and "\<And>fs. P (Print fs)"
  shows "appends P (test_endpoint env method endpoint data x)"
proof (unfold appends_def, intro allI)
  fix tr
  obtain ps where ps: "snd (test_endpoint env method endpoint data x tr) = tr @ request_of method endpoint data # ps"
    "list_all is_print ps"
    using test_endpoint_shape by blast
  have "list_all P ps"
    unfolding list_all_iff
  proof
    fix e assume "e \<in> set ps"
    with ps(2) have "is_print e" by (simp add: list_all_iff)
    then show "P e" using assms(2) by (cases e) simp_all
  qed
  with ps(1) assms(1)
  show "\<exists>evs. snd (test_endpoint env method endpoint data x tr) = tr @ evs \<and> list_all P evs"
    by simp
qed

lemma appends_word_write:
  "appends (\<lambda>e. targets ''/word/write'' e \<longrightarrow> posts_json ''/word/write'' [''text''] e)
     (test_word_features env)"
  unfolding test_word_features_def
  by (intro appends_seq, simp only: list.pred_inject, intro conjI appends_intros)
     (simp_all add: request_of_def)

lemma appends_excel_formula:
  "appends (\<lambda>e. targets ''/excel/set_formula'' e \<longrightarrow> posts_json ''/excel/set_formula'' [''cell'', ''formula''] e)
     (test_excel_features env)"
  unfolding test_excel_features_def
  by (intro appends_seq, simp only: list.pred_inject, intro conjI appends_intros)
     (simp_all add: request_of_def)


lemma io_seq_step:
  "io_seq (m # ms) tr = (case m tr of (Inl e, tr') \<Rightarrow> (Inl e, tr') | (Inr u, tr') \<Rightarrow> io_seq ms tr')"
  by (simp add: io_seq.simps io_bind_def)



lemma io_ignore_run:
  "io_ignore m tr = (case m tr of (Inl e, tr') \<Rightarrow> (Inl e, tr') | (Inr x, tr') \<Rightarrow> (Inr (), tr'))"
  by (simp add: io_ignore_def io_bind_def io_return_def)





lemma test_endpoint_outcome:
  "(\<exists>kvs. fst (test_endpoint env method endpoint data x tr) = Inr (JDict kvs)) \<or>
   interrupted (fst (test_endpoint env method endpoint data x tr))"
  by (simp add: result_test_endpoint interrupted_def error_dict_def
      split: http_outcome.splits sum.splits exn.splits json.splits)

text \<open>A call whose result is dropped: the request and prints, then on or out.\<close>

lemma call_run:
  obtains ps where "list_all is_print ps"
    and "io_ignore (test_endpoint env method endpoint data x) tr =
           (Inr (), tr @ request_of method endpoint data # ps) \<or>
         (\<exists>e. \<not> is_Exception e \<and>
              io_ignore (test_endpoint env method endpoint data x) tr =
                (Inl e, tr @ request_of method endpoint data # ps))"
proof -
  obtain ps where ps: "snd (test_endpoint env method endpoint data x tr) = tr @ request_of method endpoint data # ps"
    "list_all is_print ps"
    using test_endpoint_shape by blast
  have "io_ignore (test_endpoint env method endpoint data x) tr =
           (Inr (), tr @ request_of method endpoint data # ps) \<or>
         (\<exists>e. \<not> is_Exception e \<and>
              io_ignore (test_endpoint env method endpoint data x) tr =
                (Inl e, tr @ request_of method endpoint data # ps))"
    using test_endpoint_outcome [of env "method" "endpoint" data x tr] ps(1)
    by (cases "test_endpoint env method endpoint data x tr")
       (auto simp add: io_ignore_run interrupted_def split: sum.splits)
  with ps(2) show thesis using that by blast
qed



lemma test_endpoint_interrupt:
  "fst (test_endpoint env method endpoint data x tr) = Inl e \<Longrightarrow> stopped env"
proof -
  assume "fst (test_endpoint env method endpoint data x tr) = Inl e"
  then have "interrupts (env (tr @ [request_of method endpoint data]))"
    by (auto simp add: result_test_endpoint
        split: http_outcome.splits sum.splits exn.splits json.splits)
  then show ?thesis
    unfolding stopped_def by blast
qed

named_theorems passes_intros

lemma passes_return [passes_intros]: "passes env (io_return ())"
  by (simp add: passes_def io_return_def)

lemma passes_print [passes_intros]: "passes env (print fs)"
  by (simp add: passes_def print_def)

lemma passes_sleep [passes_intros]: "passes env (sleep n)"
  by (simp add: passes_def sleep_def)

lemma passes_if [passes_intros]:
  "(c \<Longrightarrow> passes env a) \<Longrightarrow> (\<not> c \<Longrightarrow> passes env b) \<Longrightarrow> passes env (if c then a else b)"
  by simp

lemma passes_get_bind [passes_intros]:
  "passes env (g (case map_of kvs key of None \<Rightarrow> dflt | Some v \<Rightarrow> v)) \<Longrightarrow>
   passes env (io_bind (get (JDict kvs) key dflt) g)"
  by (simp add: get_def io_lift_def io_bind_def)

lemma passes_bind_call [passes_intros]:
  assumes "\<And>kvs. passes env (f (JDict kvs))"
  shows "passes env (io_bind (test_endpoint env method endpoint data x) f)"
proof (unfold passes_def, intro allI)
  fix tr
  let ?te = "test_endpoint env method endpoint data x"
  obtain ps where ps: "snd (?te tr) = tr @ request_of method endpoint data # ps"
    using test_endpoint_shape by blast
  from test_endpoint_outcome [of env "method" "endpoint" data x tr]
  show "\<exists>evs. snd (io_bind ?te f tr) = tr @ evs \<and> (fst (io_bind ?te f tr) = Inr () \<or> stopped env)"
  proof
    assume "\<exists>kvs. fst (?te tr) = Inr (JDict kvs)"
    then obtain kvs where "fst (?te tr) = Inr (JDict kvs)"
      by blast
    with ps have run: "io_bind ?te f tr = f (JDict kvs) (tr @ request_of method endpoint data # ps)"
      by (cases "?te tr") (simp add: io_bind_def)
    from assms [of kvs] obtain evs where
      "snd (f (JDict kvs) (tr @ request_of method endpoint data # ps)) =
         (tr @ request_of method endpoint data # ps) @ evs"
      "fst (f (JDict kvs) (tr @ request_of method endpoint data # ps)) = Inr () \<or> stopped env"
      unfolding passes_def by blast
    then show ?thesis by (auto simp add: run)
  next
    assume "interrupted (fst (?te tr))"
    then obtain e where e: "fst (?te tr) = Inl e"
      by (cases "fst (?te tr)") simp_all
    with ps have "io_bind ?te f tr = (Inl e, tr @ request_of method endpoint data # ps)"
      by (cases "?te tr") (simp add: io_bind_def)
    with test_endpoint_interrupt [OF e] show ?thesis by simp
  qed
qed

lemma passes_call [passes_intros]:
  "passes env (io_ignore (test_endpoint env method endpoint data x))"
  unfolding io_ignore_def by (intro passes_bind_call passes_return)

lemma reaches_later:
  assumes "passes env m" and "reaches env P (io_seq ms)"
  shows "reaches env P (io_seq (m # ms))"
proof (unfold reaches_def, intro allI)
  fix tr
  from assms(1) obtain evs where m: "snd (m tr) = tr @ evs" "fst (m tr) = Inr () \<or> stopped env"
    unfolding passes_def by blast
  show "\<exists>evs. snd (io_seq (m # ms) tr) = tr @ evs \<and> (list_ex P evs \<or> stopped env)"
  proof (cases "fst (m tr)")
    case (Inr u)
    with m(1) have run: "io_seq (m # ms) tr = io_seq ms (tr @ evs)"
      by (cases "m tr") (simp add: io_seq_step)
    from assms(2) obtain evs' where "snd (io_seq ms (tr @ evs)) = (tr @ evs) @ evs'"
      "list_ex P evs' \<or> stopped env"
      unfolding reaches_def by blast
    then show ?thesis by (auto simp add: run)
  next
    case (Inl e)
    with m(1) have "io_seq (m # ms) tr = (Inl e, tr @ evs)"
      by (cases "m tr") (simp add: io_seq_step)
    with m(2) Inl show ?thesis by simp
  qed
qed

lemma reaches_here:
  assumes "P (request_of method endpoint data)" and "appends (\<lambda>_. True) (io_seq ms)"
  shows "reaches env P (io_seq (io_ignore (test_endpoint env method endpoint data x) # ms))"
proof (unfold reaches_def, intro allI)
  fix tr
  let ?call = "io_ignore (test_endpoint env method endpoint data x)"
  obtain ps where "?call tr = (Inr (), tr @ request_of method endpoint data # ps) \<or>
         (\<exists>e. \<not> is_Exception e \<and> ?call tr = (Inl e, tr @ request_of method endpoint data # ps))"
    by (rule call_run)
  then show "\<exists>evs. snd (io_seq (?call # ms) tr) = tr @ evs \<and> (list_ex P evs \<or> stopped env)"
  proof
    assume ok: "?call tr = (Inr (), tr @ request_of method endpoint data # ps)"
    obtain evs where "snd (io_seq ms (tr @ request_of method endpoint data # ps)) =
        (tr @ request_of method endpoint data # ps) @ evs"
      using assms(2) unfolding appends_def by blast
    then have "snd (io_seq (?call # ms) tr) = tr @ request_of method endpoint data # ps @ evs"
      by (simp add: io_seq_step [of ?call] ok)
    with assms(1) show ?thesis by simp
  next
    assume "\<exists>e. \<not> is_Exception e \<and> ?call tr = (Inl e, tr @ request_of method endpoint data # ps)"
    then obtain e where "?call tr = (Inl e, tr @ request_of method endpoint data # ps)"
      by blast
    then have "snd (io_seq (?call # ms) tr) = tr @ request_of method endpoint data # ps"
      by (simp add: io_seq_step [of ?call])
    with assms(1) show ?thesis by simp
  qed
qed

lemma reaches_events:
  "reaches env P m \<Longrightarrow> \<forall>t. \<not> interrupts (env t) \<Longrightarrow> list_ex P (events_of m tr)"
  unfolding reaches_def stopped_def events_of_def
  by (metis append_eq_conv_conj)

lemma appends_events: "appends P m \<Longrightarrow> list_all P (events_of m tr)"
  unfolding appends_def events_of_def
  by (metis append_eq_conv_conj)


lemma reaches_word_write:
  "reaches env (posts_json ''/word/write'' [''text'']) (test_word_features env)"
  unfolding test_word_features_def
  by ((rule reaches_here, (simp add: request_of_def; fail),
        (intro appends_seq, simp only: list.pred_inject, intro conjI appends_intros TrueI))
      | (rule reaches_later, (intro passes_intros)))+

lemma reaches_excel_formula:
  "reaches env (posts_json ''/excel/set_formula'' [''cell'', ''formula'']) (test_excel_features env)"
  unfolding test_excel_features_def
  by ((rule reaches_here, (simp add: request_of_def; fail),
        (intro appends_seq, simp only: list.pred_inject, intro conjI appends_intros TrueI))
      | (rule reaches_later, (intro passes_intros)))+

lemma unhealthy_main:
  assumes "\<not> healthy (health_reply env tr)"
  shows "requests (events_of (main env) tr) = [HttpGet (BASE_URL @ ''/health'')]"
    and "interrupts (health_reply env tr) \<Longrightarrow> interrupted (fst (main env tr))"
    and "\<not> interrupts (health_reply env tr) \<Longrightarrow>
           fst (main env tr) = Inr () \<and>
           last (snd (main env tr)) =
             Print [S ''\<newline>[ERROR] Server not running! Please start the server first.'']"
proof -
  define tr0 where "tr0 = tr @ [Print [S (replicate 60 (CHR ''=''))],
                Print [S ''Office Automation Server - Comprehensive Feature Test''],
                Print [S (replicate 60 (CHR ''=''))],
                Print [S ''\<newline>=== Health Check ==='']]"
  let ?te = "test_endpoint env ''GET'' ''/health'' None True"
  have reply: "health_reply env tr = env (tr0 @ [request_of ''GET'' ''/health'' None])"
    by (simp add: health_reply_def tr0_def request_of_def)
  note defs = main_def test_health_def io_bind_def print_def get_def io_lift_def
    events_of_def requests_def tr0_def error_dict_def
  have req: "is_request (request_of ''GET'' ''/health'' None)"
    "request_of ''GET'' ''/health'' None = HttpGet (BASE_URL @ ''/health'')"
    by (simp_all add: request_of_def)
  have all: "requests (events_of (main env) tr) = [HttpGet (BASE_URL @ ''/health'')] \<and>
    (interrupts (health_reply env tr) \<longrightarrow> interrupted (fst (main env tr))) \<and>
    (\<not> interrupts (health_reply env tr) \<longrightarrow>
           fst (main env tr) = Inr () \<and>
           last (snd (main env tr)) =
             Print [S ''\<newline>[ERROR] Server not running! Please start the server first.''])"
  proof (cases "env (tr0 @ [request_of ''GET'' ''/health'' None])")
    case (Raises e)
    then show ?thesis
      by (cases e)
         (simp_all add: defs reply te_raises_exc te_raises_other caught_def req)
  next
    case (Response r)
    show ?thesis
    proof (cases r)
      case (Inl e)
      with Response show ?thesis
        by (cases e)
           (simp_all add: defs reply te_json_exc te_json_other caught_def req)
    next
      case (Inr v)
      show ?thesis
      proof (cases "\<exists>kvs. v = JDict kvs")
        case False
        then obtain msg where "py_get v ''success'' JNull = Inl (Exc ''AttributeError'' msg)"
          by (cases v) simp_all
        with Response Inr False show ?thesis
          by (simp add: defs reply te_not_dict caught_def req)
      next
        case True
        then obtain kvs where kvs: "v = JDict kvs" by blast
        with assms Response Inr reply have falsy: "\<not> truthy (field_of kvs ''success'')"
          by simp
        from Response Inr kvs falsy show ?thesis
          by (simp add: defs reply te_dict field_of_def req)
      qed
    qed
  qed
  from all show "requests (events_of (main env) tr) = [HttpGet (BASE_URL @ ''/health'')]"
    by simp
  from all show "interrupts (health_reply env tr) \<Longrightarrow> interrupted (fst (main env tr))"
    by simp
  from all show "\<not> interrupts (health_reply env tr) \<Longrightarrow>
           fst (main env tr) = Inr () \<and>
           last (snd (main env tr)) =
             Print [S ''\<newline>[ERROR] Server not running! Please start the server first.'']"
    by simp
qed



lemma appends_powerpoint_slide:
  "appends (\<lambda>e. targets ''/powerpoint/add_slide'' e \<longrightarrow> posts_json ''/powerpoint/add_slide'' [''layout''] e)
     (test_powerpoint_features env)"
  unfolding test_powerpoint_features_def
  by (intro appends_seq, simp only: list.pred_inject, intro conjI appends_intros)
     (simp_all add: request_of_def)

lemma reaches_powerpoint_slide:
  "reaches env (posts_json ''/powerpoint/add_slide'' [''layout'']) (test_powerpoint_features env)"
  unfolding test_powerpoint_features_def
  by ((rule reaches_here, (simp add: request_of_def; fail),
        (intro appends_seq, simp only: list.pred_inject, intro conjI appends_intros TrueI))
      | (rule reaches_later, (intro passes_intros)))+

section \<open>Claims about the feature tests and main\<close>


text \<open>
  C5. Every request the feature tests send to \<^verbatim>\<open>/word/write\<close> is a POST whose JSON body
  has the key \<^verbatim>\<open>text\<close>, every request to \<^verbatim>\<open>/excel/set_formula\<close> a POST whose body has
  the keys \<^verbatim>\<open>cell\<close> and \<^verbatim>\<open>formula\<close>, every request to \<^verbatim>\<open>/powerpoint/add_slide\<close> a POST
  whose body has the key \<^verbatim>\<open>layout\<close> (and no other keys); and unless a request is
  interrupted, each test does send such a request.
\<close>

theorem request_shapes:
  "list_all (\<lambda>e. targets ''/word/write'' e \<longrightarrow> posts_json ''/word/write'' [''text''] e)
      (events_of (test_word_features env) tr) \<and>
   list_all (\<lambda>e. targets ''/excel/set_formula'' e \<longrightarrow>
                posts_json ''/excel/set_formula'' [''cell'', ''formula''] e)
      (events_of (test_excel_features env) tr) \<and>
   list_all (\<lambda>e. targets ''/powerpoint/add_slide'' e \<longrightarrow>
                posts_json ''/powerpoint/add_slide'' [''layout''] e)
      (events_of (test_powerpoint_features env) tr) \<and>
   ((\<forall>t. \<not> interrupts (env t)) \<longrightarrow>
      list_ex (posts_json ''/word/write'' [''text'']) (events_of (test_word_features env) tr) \<and>
      list_ex (posts_json ''/excel/set_formula'' [''cell'', ''formula''])
        (events_of (test_excel_features env) tr) \<and>
      list_ex (posts_json ''/powerpoint/add_slide'' [''layout''])
        (events_of (test_powerpoint_features env) tr))"
proof (intro conjI impI)
  show "list_all (\<lambda>e. targets ''/word/write'' e \<longrightarrow> posts_json ''/word/write'' [''text''] e)
      (events_of (test_word_features env) tr)"
    by (rule appends_events [OF appends_word_write])
  show "list_all (\<lambda>e. targets ''/excel/set_formula'' e \<longrightarrow>
                posts_json ''/excel/set_formula'' [''cell'', ''formula''] e)
      (events_of (test_excel_features env) tr)"
    by (rule appends_events [OF appends_excel_formula])
  show "list_all (\<lambda>e. targets ''/powerpoint/add_slide'' e \<longrightarrow>
                posts_json ''/powerpoint/add_slide'' [''layout''] e)
      (events_of (test_powerpoint_features env) tr)"
    by (rule appends_events [OF appends_powerpoint_slide])
next
  assume quiet: "\<forall>t. \<not> interrupts (env t)"
  show "list_ex (posts_json ''/word/write'' [''text'']) (events_of (test_word_features env) tr)"
    by (rule reaches_events [OF reaches_word_write quiet])
  show "list_ex (posts_json ''/excel/set_formula'' [''cell'', ''formula''])
        (events_of (test_excel_features env) tr)"
    by (rule reaches_events [OF reaches_excel_formula quiet])
  show "list_ex (posts_json ''/powerpoint/add_slide'' [''layout''])
        (events_of (test_powerpoint_features env) tr)"
    by (rule reaches_events [OF reaches_powerpoint_slide quiet])
qed

theorem request_shapes_witness:
  "list_ex (posts_json ''/word/write'' [''text''])
     (events_of (test_word_features (\<lambda>_. Response (Inr (JDict [(''success'', JBool True)])))) []) \<and>
   list_ex (posts_json ''/excel/set_formula'' [''cell'', ''formula''])
     (events_of (test_excel_features (\<lambda>_. Response (Inr (JDict [(''success'', JBool True)])))) []) \<and>
   list_ex (posts_json ''/powerpoint/add_slide'' [''layout''])
     (events_of (test_powerpoint_features (\<lambda>_. Response (Inr (JDict [(''success'', JBool True)])))) [])"
  using request_shapes [where env = "\<lambda>_. Response (Inr (JDict [(''success'', JBool True)]))" and tr = "[]"]
  by simp

text \<open>
  C9. When the reply to the initial \<^verbatim>\<open>GET /health\<close> is not a JSON object with a truthy
  \<^verbatim>\<open>success\<close>, that request is the only one \<^verbatim>\<open>main\<close> sends: it prints the error line last
  and returns (or, if the health request itself was interrupted, the interrupt leaves
  \<^verbatim>\<open>main\<close>).
\<close>

theorem health_check_gates_the_tests:
  "\<not> healthy (health_reply env tr) \<Longrightarrow>
     requests (events_of (main env) tr) = [HttpGet (BASE_URL @ ''/health'')] \<and>
     (if interrupts (health_reply env tr) then interrupted (fst (main env tr))
      else fst (main env tr) = Inr () \<and>
           last (snd (main env tr)) =
             Print [S ''\<newline>[ERROR] Server not running! Please start the server first.''])"
  using unhealthy_main [of env tr] by simp

theorem health_check_gates_the_tests_witness:
  "requests (events_of (main (\<lambda>_. Response (Inr (JDict [(''success'', JBool False)])))) []) =
     [HttpGet ''http://127.0.0.1:8765/health''] \<and>
   fst (main (\<lambda>_. Response (Inr (JDict [(''success'', JBool False)]))) []) = Inr () \<and>
   last (snd (main (\<lambda>_. Response (Inr (JDict [(''success'', JBool False)]))) [])) =
     Print [S ''\<newline>[ERROR] Server not running! Please start the server first.'']"
  using health_check_gates_the_tests
    [where env = "\<lambda>_. Response (Inr (JDict [(''success'', JBool False)]))" and tr = "[]"]
  by (simp add: health_reply_def field_of_def BASE_URL_def)

section \<open>Facts about the build script\<close>

lemmas build_defs = build_main_def io_bind_def io_return_def io_lift_def io_try_def print_def
  sys_exit_def subprocess_run_def import_def os_path_exists_def os_path_getsize_def
  shutil_rmtree_def io_seq.simps

lemma not_windows:
  "sys_platform os \<noteq> ''win32'' \<Longrightarrow>
   build_main os tr =
     (Inl (SystemExit 1),
      tr @ [Print [S (replicate 60 (CHR ''=''))],
            Print [S ''Office Server Build Script''],
            Print [S (replicate 60 (CHR ''=''))],
            Print [S ''ERROR: This script must be run on Windows'']])"
  by (simp add: build_defs)


lemma appends_sys_exit [appends_intros]: "appends P (sys_exit n)"
  by (simp add: sys_exit_def appends_lift)

lemma appends_subprocess_run [appends_intros]:
  "P (Subprocess args) \<Longrightarrow> appends P (subprocess_run os args check)"
  by (simp add: appends_def subprocess_run_def split: sum.splits)

lemma appends_import [appends_intros]: "P (Import name) \<Longrightarrow> appends P (import os name)"
  by (simp add: appends_def import_def split: option.splits)

lemma appends_rmtree [appends_intros]: "P (Rmtree path) \<Longrightarrow> appends P (shutil_rmtree os path)"
  by (simp add: appends_def shutil_rmtree_def split: option.splits)

lemma appends_exists [appends_intros]: "appends P (os_path_exists os path)"
  by (simp add: appends_def os_path_exists_def)

lemma appends_getsize [appends_intros]: "appends P (os_path_getsize os path)"
  by (simp add: appends_def os_path_getsize_def)



lemma rule_is_no_line [simp]:
  "replicate n (CHR ''='') \<noteq> CHR ''\<newline>'' # s"
  by (cases n) simp_all

lemma appends_quiet_prepare:
  "appends (quiet [S (CHR ''\<newline>'' # s)]) (print [S (replicate 60 (CHR ''=''))])"
  by (intro appends_intros) (simp add: quiet_def)





section \<open>Claims about build.py\<close>




text \<open>
  C10. When \<^verbatim>\<open>sys.platform\<close> is not \<^verbatim>\<open>win32\<close>, the script prints its banner and the error
  line and ends in \<^verbatim>\<open>sys.exit(1)\<close>; it starts no subprocess, imports nothing and removes
  nothing.
\<close>

theorem platform_check_comes_first:
  "sys_platform os \<noteq> ''win32'' \<Longrightarrow>
   build_main os tr =
     (Inl (SystemExit 1),
      tr @ [Print [S (replicate 60 (CHR ''=''))],
            Print [S ''Office Server Build Script''],
            Print [S (replicate 60 (CHR ''=''))],
            Print [S ''ERROR: This script must be run on Windows'']]) \<and>
   effects (events_of (build_main os) tr) = []"
  by (simp add: not_windows events_of_def effects_def)

theorem platform_check_comes_first_witness:
  "fst (build_main
        \<lparr>sys_platform = ''linux'', sys_version = ''3.11.4'', sys_executable = ''/usr/bin/python3'',
         run_process = (\<lambda>_. Inr 0), called_process_error = (\<lambda>_ _. []),
         import_module = (\<lambda>_. None), path_exists = (\<lambda>_ _. True), remove_tree = (\<lambda>_. None),
         path_getsize = (\<lambda>_ _. Inr 0)\<rparr> []) = Inl (SystemExit 1) \<and>
   effects (events_of (build_main
        \<lparr>sys_platform = ''linux'', sys_version = ''3.11.4'', sys_executable = ''/usr/bin/python3'',
         run_process = (\<lambda>_. Inr 0), called_process_error = (\<lambda>_ _. []),
         import_module = (\<lambda>_. None), path_exists = (\<lambda>_ _. True), remove_tree = (\<lambda>_. None),
         path_getsize = (\<lambda>_ _. Inr 0)\<rparr>) []) = []"
  using platform_check_comes_first
    [of "\<lparr>sys_platform = ''linux'', sys_version = ''3.11.4'', sys_executable = ''/usr/bin/python3'',
         run_process = (\<lambda>_. Inr 0), called_process_error = (\<lambda>_ _. []),
         import_module = (\<lambda>_. None), path_exists = (\<lambda>_ _. True), remove_tree = (\<lambda>_. None),
         path_getsize = (\<lambda>_ _. Inr 0)\<rparr>" "[]"]
  by simp

end
